theory Spec2Isabelle
  imports Main "HOL-Library.Word" "HOL-Library.Sublist"
begin

section \<open>JavaScript values\<close>

text \<open>
  A JavaScript string is a sequence of UTF-16 code units. String literals of the source
  are written with \<open>js\<close>, which maps every character of an Isabelle literal to the code
  unit of the same number (ASCII and Latin-1 coincide with UTF-16 there).
  \<open>null\<close> and \<open>undefined\<close> are \<open>None\<close> of an option type.
\<close>

type_synonym code_unit = "16 word"
type_synonym jsstring = "code_unit list"

definition js :: "string \<Rightarrow> jsstring" where
  "js cs = map (\<lambda>c. of_nat (of_char c)) cs"

definition nl :: code_unit where
  "nl = 0x0A"

definition bt :: code_unit where
  "bt = 0x60"

definition comma :: code_unit where
  "comma = 0x2C"

text \<open>Truthiness of a \<open>string | null\<close> (or \<open>string | undefined\<close>) value: \<open>null\<close>,
  \<open>undefined\<close> and the empty string are falsy.\<close>

definition truthy :: "jsstring option \<Rightarrow> bool" where
  "truthy v = (case v of None \<Rightarrow> False | Some s \<Rightarrow> s \<noteq> [])"

text \<open>\<open>a || b\<close> on such values, with a string on the right.\<close>

definition js_or :: "jsstring option \<Rightarrow> jsstring \<Rightarrow> jsstring" where
  "js_or v d = (case v of None \<Rightarrow> d | Some s \<Rightarrow> if s = [] then d else s)"

text \<open>\<open>String.prototype.startsWith\<close>.\<close>

definition startsWith :: "jsstring \<Rightarrow> jsstring \<Rightarrow> bool" where
  "startsWith s p = prefix p s"

text \<open>\<open>String.prototype.split\<close> with a separator of one code unit: the pieces between
  the occurrences of the separator, in order; never an empty array.\<close>

fun split :: "code_unit \<Rightarrow> jsstring \<Rightarrow> jsstring list" where
  "split sep [] = [] # []"
| "split sep (c # cs) =
     (if c = sep then [] # split sep cs
      else (case split sep cs of p # ps \<Rightarrow> (c # p) # ps | [] \<Rightarrow> [c] # []))"

text \<open>Array indexing: out of range is \<open>undefined\<close>.\<close>

definition at_index :: "'a list \<Rightarrow> nat \<Rightarrow> 'a option" where
  "at_index xs i = (if i < length xs then Some (xs ! i) else None)"

section \<open>The state of the component (App.tsx)\<close>

text \<open>The five \<open>useState\<close> cells of \<open>App\<close>. The cell \<open>image\<close> is named \<open>image_uri\<close>.\<close>

record ui_state =
  image_uri :: "jsstring option"
  mimeType :: jsstring
  analyzing :: bool
  result :: "jsstring option"
  copied :: bool

record js_file =
  file_name :: jsstring
  file_type :: jsstring

datatype js_error = JsError jsstring

text \<open>What a handler asks of the browser or of the Analysis Client, in the order asked.\<close>

datatype effect =
    ReadAsDataURL js_file
  | AnalyzeImage jsstring jsstring
  | ConsoleError js_error
  | ClipboardWriteText jsstring
  | SetTimeout nat

subsection \<open>handleFile\<close>

text \<open>
  \<open>handleFile\<close> returns at once for a file whose type does not start with \<open>image/\<close>;
  otherwise it creates a reader and starts reading. The \<open>onload\<close> callback of that reader
  runs later, with the reader's result, and performs the three updates.
\<close>

definition handleFile :: "js_file \<Rightarrow> ui_state \<Rightarrow> ui_state \<times> effect list" where
  "handleFile f s =
     (if \<not> startsWith (file_type f) (js ''image/'') then (s, [])
      else (s, [ReadAsDataURL f]))"

definition reader_onload :: "js_file \<Rightarrow> jsstring option \<Rightarrow> ui_state \<Rightarrow> ui_state" where
  "reader_onload f target_result s =
     s\<lparr>image_uri := target_result, mimeType := file_type f, result := None\<rparr>"

section \<open>The Analysis Client (services/geminiService.ts)\<close>

record inline_data =
  inl_data :: "jsstring option"
  inl_mimeType :: jsstring

text \<open>The argument of \<open>generateContent\<close>: the model name and the two parts.\<close>

record request =
  req_model :: jsstring
  req_inlineData :: inline_data
  req_text :: jsstring

record response =
  resp_text :: "jsstring option"

text \<open>The template literal \<open>prompt\<close>, code unit by code unit.\<close>

definition prompt :: jsstring where
  "prompt =
    js ''Analise esta imagem detalhadamente para criar um '' @ [0x0022]
     @ js ''prompt de clonagem'' @ [0x0022] @ js '' perfeito. '' @ [0x000A]
     @ js ''  Sua tarefa '' @ [0x00E9] @ js '' descrever cada aspecto t'' @ [0x00E9]
     @ js ''cnico e visual para que outra IA possa recriar esta imagem com precis'' @ [0x00E3]
     @ js ''o m'' @ [0x00E1] @ js ''xima.'' @ [0x000A] @ js ''  '' @ [0x000A]
     @ js ''  O resultado deve ser estruturado da seguinte forma:'' @ [0x000A] @ js ''  ''
     @ [0x000A] @ js ''  ### '' @ [0xD83D, 0xDE80] @ js '' Prompt de Clonagem (Ingl''
     @ [0x00EA] @ js ''s)'' @ [0x000A] @ js ''  [Um prompt altamente detalhado em ingl''
     @ [0x00EA] @ js ''s, otimizado para Midjourney, Stable Diffusion ou DALL-E 3]'' @ [0x000A]
     @ js ''  '' @ [0x000A] @ js ''  ### '' @ [0xD83D, 0xDD0D] @ js '' An'' @ [0x00E1]
     @ js ''lise de Detalhes (Portugu'' @ [0x00EA] @ js ''s)'' @ [0x000A]
     @ js ''  - **Sujeito:** Detalhes f'' @ [0x00ED] @ js ''sicos, express'' @ [0x00E3]
     @ js ''o, pose.'' @ [0x000A] @ js ''  - **Estilo:** T'' @ [0x00E9] @ js ''cnica art''
     @ [0x00ED] @ js ''stica ou fotogr'' @ [0x00E1] @ js ''fica.'' @ [0x000A]
     @ js ''  - **Ilumina'' @ [0x00E7, 0x00E3] @ js ''o:** Atmosfera e fontes de luz.''
     @ [0x000A] @ js ''  - **Composi'' @ [0x00E7, 0x00E3]
     @ js ''o:** Enquadramento e profundidade.'' @ [0x000A]
     @ js ''  - **Cores:** Paleta e satura'' @ [0x00E7, 0x00E3] @ js ''o.'' @ [0x000A]
     @ js ''  '' @ [0x000A] @ js ''  Seja extremamente espec'' @ [0x00ED]
     @ js ''fico. Se houver um rosto, descreva tra'' @ [0x00E7] @ js ''os '' @ [0x00FA]
     @ js ''nicos. Se houver um corpo, descreva a anatomia e vestimenta.''"

text \<open>The request that \<open>analyzeImage\<close> builds: the data is \<open>base64Image.split(',')[1]\<close>.\<close>

definition analyzeImage_request :: "jsstring \<Rightarrow> jsstring \<Rightarrow> request" where
  "analyzeImage_request base64Image mimeType' =
     \<lparr>req_model = js ''gemini-3-flash-preview'',
      req_inlineData =
        \<lparr>inl_data = at_index (split comma base64Image) 1, inl_mimeType = mimeType'\<rparr>,
      req_text = prompt\<rparr>"

text \<open>
  \<open>analyzeImage\<close> awaits the service and returns \<open>response.text\<close>. The service (the
  construction of the client from the API key and its \<open>generateContent\<close>) is the
  parameter \<open>generateContent\<close>: it answers with a response or throws. A rejected promise
  is \<open>Inl\<close>.
\<close>

definition analyzeImage ::
  "(request \<Rightarrow> js_error + response) \<Rightarrow> jsstring \<Rightarrow> jsstring \<Rightarrow> js_error + jsstring option" where
  "analyzeImage generateContent base64Image mimeType' =
     (case generateContent (analyzeImage_request base64Image mimeType') of
        Inl e \<Rightarrow> Inl e
      | Inr response \<Rightarrow> Inr (resp_text response))"

section \<open>Handlers as actions on the state\<close>

text \<open>
  A handler runs on the state and ends normally or by throwing; it returns the state it
  leaves and the effects it asked for.
\<close>

type_synonym 'a action = "ui_state \<Rightarrow> (js_error + 'a) \<times> ui_state \<times> effect list"

definition ret :: "'a \<Rightarrow> 'a action" where
  "ret x s = (Inr x, s, [])"

definition bind :: "'a action \<Rightarrow> ('a \<Rightarrow> 'b action) \<Rightarrow> 'b action" where
  "bind m f s =
     (case m s of
        (Inl e, s1, es1) \<Rightarrow> (Inl e, s1, es1)
      | (Inr x, s1, es1) \<Rightarrow> (case f x s1 of (r, s2, es2) \<Rightarrow> (r, s2, es1 @ es2)))"

text \<open>
  \<open>try { body } catch (e) { handler } finally { fin }\<close>: the handler runs when the body
  throws, \<open>fin\<close> runs in every case, and what leaves the statement is what \<open>fin\<close> throws,
  else what the handler throws, else nothing.
\<close>

definition try_catch_finally ::
  "unit action \<Rightarrow> (js_error \<Rightarrow> unit action) \<Rightarrow> unit action \<Rightarrow> unit action" where
  "try_catch_finally body handler fin s =
     (case body s of (r1, s1, es1) \<Rightarrow>
        (case (case r1 of Inr u \<Rightarrow> (Inr u, s1, []) | Inl e \<Rightarrow> handler e s1) of (r2, s2, es2) \<Rightarrow>
           (case fin s2 of (r3, s3, es3) \<Rightarrow>
              ((case r3 of Inl e \<Rightarrow> Inl e | Inr u \<Rightarrow> r2), s3, es1 @ es2 @ es3))))"

definition setAnalyzing :: "bool \<Rightarrow> unit action" where
  "setAnalyzing b s = (Inr (), s\<lparr>analyzing := b\<rparr>, [])"

definition setResult :: "jsstring option \<Rightarrow> unit action" where
  "setResult r s = (Inr (), s\<lparr>result := r\<rparr>, [])"

definition setCopied :: "bool \<Rightarrow> unit action" where
  "setCopied b s = (Inr (), s\<lparr>copied := b\<rparr>, [])"

definition console_error :: "js_error \<Rightarrow> unit action" where
  "console_error e s = (Inr (), s, [ConsoleError e])"

text \<open>
  \<open>await analyzeImage(image, mimeType)\<close>: the call is issued, and while its promise is
  pending other handlers may run; \<open>during\<close> is what they do to the state. The promise
  then settles with the client's answer, a rejection being thrown at the \<open>await\<close>.
\<close>

definition await_analyzeImage ::
  "(jsstring \<Rightarrow> jsstring \<Rightarrow> js_error + jsstring option) \<Rightarrow> (ui_state \<Rightarrow> ui_state) \<Rightarrow>
     jsstring \<Rightarrow> jsstring \<Rightarrow> (jsstring option) action" where
  "await_analyzeImage client during img mimeType' s =
     (client img mimeType', during s, [AnalyzeImage img mimeType'])"

subsection \<open>handleAnalyze\<close>

text \<open>The two fixed messages of \<open>handleAnalyze\<close>.\<close>

definition no_prompt_message :: jsstring where
  "no_prompt_message = js (''N'' @ [CHR 0xE3] @ ''o foi poss'' @ [CHR 0xED] @ ''vel gerar o prompt.'')"

definition error_message :: jsstring where
  "error_message = js (''Erro ao analisar imagem. Verifique sua conex'' @ [CHR 0xE3] @ ''o.'')"

text \<open>
  \<open>if (!image) return;\<close> leaves when \<open>image\<close> is \<open>null\<close> or empty. The values of \<open>image\<close>
  and \<open>mimeType\<close> passed to the client are those of the state the handler was called in.
\<close>

definition handleAnalyze ::
  "(jsstring \<Rightarrow> jsstring \<Rightarrow> js_error + jsstring option) \<Rightarrow> (ui_state \<Rightarrow> ui_state) \<Rightarrow>
     unit action" where
  "handleAnalyze client during s =
     (case image_uri s of
        None \<Rightarrow> ret () s
      | Some img \<Rightarrow>
          if img = [] then ret () s
          else bind (setAnalyzing True) (\<lambda>_.
                 try_catch_finally
                   (bind (await_analyzeImage client during img (mimeType s)) (\<lambda>promptResult.
                      setResult (Some (js_or promptResult no_prompt_message))))
                   (\<lambda>error. bind (console_error error) (\<lambda>_. setResult (Some error_message)))
                   (setAnalyzing False)) s)"

text \<open>
  The button that calls \<open>handleAnalyze\<close> has \<open>disabled={!image || analyzing}\<close>; a disabled
  button dispatches no click, so its \<open>onClick\<close> does not run.
\<close>

definition analyze_button_disabled :: "ui_state \<Rightarrow> bool" where
  "analyze_button_disabled s = (\<not> truthy (image_uri s) \<or> analyzing s)"

definition analyze_button_click ::
  "(jsstring \<Rightarrow> jsstring \<Rightarrow> js_error + jsstring option) \<Rightarrow> (ui_state \<Rightarrow> ui_state) \<Rightarrow>
     unit action" where
  "analyze_button_click client during s =
     (if analyze_button_disabled s then ret () s else handleAnalyze client during s)"

section \<open>Regular expressions, as far as \<open>copyToClipboard\<close> uses them\<close>

text \<open>
  The pattern of \<open>copyToClipboard\<close> is
  \<^verbatim>\<open>/```(?:prompt|text|markdown)?\n([\s\S]*?)\n```/\<close>.
  Its constructs: a literal sequence of code units, alternation, concatenation, the
  greedy optional \<open>r?\<close>, the lazy \<open>[\s\S]*?\<close> (any code unit, as few as possible) and
  the capturing group, of which the pattern has one.
\<close>

datatype regex =
    Lit jsstring
  | Alt regex regex
  | Cat regex regex
  | Opt regex
  | LazyAny
  | Group regex

text \<open>A state of the matcher: what group 1 has captured so far, and the input left.\<close>

type_synonym mstate = "jsstring option \<times> jsstring"

text \<open>The input left after consuming 0, 1, 2, ... code units.\<close>

fun tails :: "jsstring \<Rightarrow> jsstring list" where
  "tails [] = [] # []"
| "tails (c # cs) = (c # cs) # tails cs"

text \<open>
  The backtracking matcher: all the ways of matching at the start of the input, in the
  order in which backtracking tries them. An alternation tries its left side first, the
  greedy optional tries its operand before skipping it, the lazy star tries the shorter
  repetition first.
\<close>

fun rmatch :: "regex \<Rightarrow> mstate \<Rightarrow> mstate list" where
  "rmatch (Lit l) (cap, s) = (if prefix l s then [(cap, drop (length l) s)] else [])"
| "rmatch (Alt a b) st = rmatch a st @ rmatch b st"
| "rmatch (Cat a b) st = concat (map (rmatch b) (rmatch a st))"
| "rmatch (Opt a) st = rmatch a st @ [st]"
| "rmatch LazyAny (cap, s) = map (Pair cap) (tails s)"
| "rmatch (Group a) (cap, s) =
     map (\<lambda>(cap', s'). (Some (take (length s - length s') s), s')) (rmatch a (cap, s))"

text \<open>The array that \<open>match\<close> returns: its \<open>index\<close>, element 0 and element 1.\<close>

record match_result =
  m_index :: nat
  m_whole :: jsstring
  m_group1 :: "jsstring option"

text \<open>
  A pattern without the \<open>g\<close> flag is tried at index 0, 1, ... up to the length of the
  string; the first index with a match wins, with the first way of matching there.
\<close>

fun exec_from :: "regex \<Rightarrow> nat \<Rightarrow> jsstring \<Rightarrow> match_result option" where
  "exec_from r i [] =
     (case rmatch r (None, []) of
        (cap, rest) # _ \<Rightarrow> Some \<lparr>m_index = i, m_whole = [], m_group1 = cap\<rparr>
      | [] \<Rightarrow> None)"
| "exec_from r i (c # cs) =
     (case rmatch r (None, c # cs) of
        (cap, rest) # _ \<Rightarrow>
          Some \<lparr>m_index = i, m_whole = take (length (c # cs) - length rest) (c # cs),
                m_group1 = cap\<rparr>
      | [] \<Rightarrow> exec_from r (Suc i) cs)"

text \<open>\<open>String.prototype.match\<close>; \<open>None\<close> is \<open>null\<close>.\<close>

definition string_match :: "jsstring \<Rightarrow> regex \<Rightarrow> match_result option" where
  "string_match s r = exec_from r 0 s"

definition fence :: jsstring where
  "fence = [bt, bt, bt]"

definition closing :: jsstring where
  "closing = nl # fence"

definition code_block_regex :: regex where
  "code_block_regex =
     Cat (Lit fence)
    (Cat (Opt (Alt (Lit (js ''prompt'')) (Alt (Lit (js ''text'')) (Lit (js ''markdown'')))))
    (Cat (Lit [nl])
    (Cat (Group LazyAny)
         (Lit closing))))"

subsection \<open>copyToClipboard\<close>

text \<open>Conversion of a \<open>string | undefined\<close> argument to a string.\<close>

definition js_String :: "jsstring option \<Rightarrow> jsstring" where
  "js_String v = (case v of None \<Rightarrow> js ''undefined'' | Some s \<Rightarrow> s)"

text \<open>\<open>codeMatch ? codeMatch[1] : result\<close>\<close>

definition textToCopy :: "jsstring \<Rightarrow> jsstring option" where
  "textToCopy r =
     (case string_match r code_block_regex of
        Some codeMatch \<Rightarrow> m_group1 codeMatch
      | None \<Rightarrow> Some r)"

text \<open>The clipboard is taken to exist: \<open>navigator.clipboard.writeText\<close> does not throw.\<close>

definition clipboard_writeText :: "jsstring option \<Rightarrow> unit action" where
  "clipboard_writeText v s = (Inr (), s, [ClipboardWriteText (js_String v)])"

text \<open>\<open>setTimeout(() => setCopied(false), d)\<close>: the only callback the component schedules.\<close>

definition setTimeout :: "nat \<Rightarrow> unit action" where
  "setTimeout d s = (Inr (), s, [SetTimeout d])"

definition copyToClipboard :: "unit action" where
  "copyToClipboard s =
     (case result s of
        None \<Rightarrow> ret () s
      | Some r \<Rightarrow>
          if r = [] then ret () s
          else bind (clipboard_writeText (textToCopy r)) (\<lambda>_.
               bind (setCopied True) (\<lambda>_. setTimeout 2000)) s)"

section \<open>Time and timers\<close>

text \<open>
  The component in a browser: the state, a clock in milliseconds and the pending timers,
  each with the time it is due, in the order they were set. A click on the copy button
  runs \<open>copyToClipboard\<close> at the current time; \<open>Elapse d\<close> lets \<open>d\<close> milliseconds pass, and
  the timers that are due by then run their callback, oldest first.
\<close>

record world =
  w_ui :: ui_state
  w_clock :: nat
  w_timers :: "nat list"

datatype event = CopyClick | Elapse nat

definition timer_callback :: "unit action" where
  "timer_callback = setCopied False"

definition schedule :: "nat \<Rightarrow> effect list \<Rightarrow> nat list" where
  "schedule now es = concat (map (\<lambda>e. case e of SetTimeout d \<Rightarrow> [now + d] | _ \<Rightarrow> []) es)"

definition fire_due :: "world \<Rightarrow> world" where
  "fire_due w =
     w\<lparr>w_ui := fold (\<lambda>due s. fst (snd (timer_callback s)))
                (filter (\<lambda>due. due \<le> w_clock w) (w_timers w)) (w_ui w),
       w_timers := filter (\<lambda>due. \<not> due \<le> w_clock w) (w_timers w)\<rparr>"

fun step :: "event \<Rightarrow> world \<Rightarrow> world" where
  "step CopyClick w =
     (case copyToClipboard (w_ui w) of
        (r, s', es) \<Rightarrow> w\<lparr>w_ui := s', w_timers := w_timers w @ schedule (w_clock w) es\<rparr>)"
| "step (Elapse d) w = fire_due (w\<lparr>w_clock := w_clock w + d\<rparr>)"

fun run :: "event list \<Rightarrow> world \<Rightarrow> world" where
  "run [] w = w"
| "run (e # es) w = run es (step e w)"

section \<open>Notions of the specification\<close>







text \<open>The substring after the first comma (empty when there is no comma).\<close>

definition after_first_comma :: "jsstring \<Rightarrow> jsstring" where
  "after_first_comma s = tl (dropWhile (\<lambda>c. c \<noteq> comma) s)"

section \<open>Auxiliary functions of the proofs\<close>





text \<open>
  What holds of every world reached from one with no pending timer and the indicator
  off: a result is present, the indicator is on only while a timer is pending, and every
  pending timer is due later than now and at most 2000 ms from now.
\<close>

definition timers_inv :: "world \<Rightarrow> bool" where
  "timers_inv w =
     (truthy (result (w_ui w)) \<and> (copied (w_ui w) \<longrightarrow> w_timers w \<noteq> [])
      \<and> (\<forall>due\<in>set (w_timers w). w_clock w < due \<and> due \<le> w_clock w + 2000))"

section \<open>Example inputs\<close>

definition png_uri :: jsstring where
  "png_uri = js ''data:image/png;base64,AAAA''"

definition idle_state :: ui_state where
  "idle_state =
     \<lparr>image_uri = None, mimeType = [], analyzing = False, result = None, copied = False\<rparr>"

definition ready_state :: ui_state where
  "ready_state =
     \<lparr>image_uri = Some png_uri, mimeType = js ''image/png'', analyzing = False,
      result = None, copied = False\<rparr>"

definition busy_state :: ui_state where
  "busy_state =
     \<lparr>image_uri = Some png_uri, mimeType = js ''image/png'', analyzing = True,
      result = None, copied = False\<rparr>"

definition stub_client :: "jsstring option \<Rightarrow> jsstring \<Rightarrow> jsstring \<Rightarrow> js_error + jsstring option" where
  "stub_client v img mt = Inr v"

definition failing_client :: "js_error \<Rightarrow> jsstring \<Rightarrow> jsstring \<Rightarrow> js_error + jsstring option" where
  "failing_client e img mt = Inl e"

definition stub_service :: "response \<Rightarrow> request \<Rightarrow> js_error + response" where
  "stub_service r req = Inr r"

text \<open>The result of the specification's scenario, and a result with an untagged block.\<close>

definition scenario_text :: jsstring where
  "scenario_text =
     js ''### Prompt'' @ [nl] @ fence @ js ''prompt'' @ [nl] @ js ''cat on a chair'' @ closing"


text \<open>
  A result with three fenced blocks, tagged \<open>json\<close>, \<open>prompt\<close> and \<open>text\<close>, and a result
  with no fence.
\<close>

definition three_blocks_text :: jsstring where
  "three_blocks_text =
     (fence @ js ''json'' @ [nl] @ js ''{}'' @ closing) @ [nl]
     @ (fence @ js ''prompt'' @ [nl] @ js ''x'' @ closing) @ [nl]
     @ (fence @ js ''text'' @ [nl] @ js ''y'' @ closing)"


definition with_result :: "jsstring \<Rightarrow> ui_state" where
  "with_result r = ready_state\<lparr>result := Some r\<rparr>"

definition copy_world :: world where
  "copy_world = \<lparr>w_ui = with_result scenario_text, w_clock = 0, w_timers = []\<rparr>"

section \<open>Lemmas\<close>

lemmas action_defs = ret_def bind_def try_catch_finally_def setAnalyzing_def setResult_def
  setCopied_def console_error_def await_analyzeImage_def clipboard_writeText_def setTimeout_def

subsection \<open>split\<close>

lemma split_not_Nil: "split sep s \<noteq> []"
  by (induction s) (auto split: list.splits)

lemma split_unfold:
  "split sep s =
     takeWhile (\<lambda>c. c \<noteq> sep) s #
       (if sep \<in> set s then split sep (tl (dropWhile (\<lambda>c. c \<noteq> sep) s)) else [])"
  by (induction s) (auto split: list.splits simp: split_not_Nil)

lemma split_index_1:
  "at_index (split sep s) (Suc 0) =
     (if sep \<in> set s then Some (takeWhile (\<lambda>c. c \<noteq> sep) (tl (dropWhile (\<lambda>c. c \<noteq> sep) s)))
      else None)"
proof (cases "sep \<in> set s")
  case True
  let ?r = "tl (dropWhile (\<lambda>c. c \<noteq> sep) s)"
  have "split sep s = takeWhile (\<lambda>c. c \<noteq> sep) s # split sep ?r"
    using True split_unfold [of sep s] by simp
  moreover obtain p ps where "split sep ?r = p # ps" "p = takeWhile (\<lambda>c. c \<noteq> sep) ?r"
    using split_unfold [of sep ?r] by simp
  ultimately show ?thesis
    using True by (simp add: at_index_def)
next
  case False
  then have "split sep s = [takeWhile (\<lambda>c. c \<noteq> sep) s]"
    using split_unfold [of sep s] by simp
  then show ?thesis
    using False by (simp add: at_index_def)
qed

subsection \<open>The matches of the pattern at one position\<close>























subsection \<open>The first match in a string\<close>

lemma copyToClipboard_eq:
  "result s = Some r \<Longrightarrow> r \<noteq> [] \<Longrightarrow>
     copyToClipboard s =
       (Inr (), s\<lparr>copied := True\<rparr>, [ClipboardWriteText (js_String (textToCopy r)), SetTimeout 2000])"
  by (simp add: copyToClipboard_def action_defs)



subsection \<open>Fences\<close>





subsection \<open>Timers\<close>

lemma fold_clear:
  "copied (fold (\<lambda>due s. fst (snd (timer_callback s))) ds s) = (if ds = [] then copied s else False)"
  by (induction ds arbitrary: s) (auto simp: timer_callback_def setCopied_def)

lemma fold_keeps_result:
  "result (fold (\<lambda>due s. fst (snd (timer_callback s))) ds s) = result s"
  by (induction ds arbitrary: s) (auto simp: timer_callback_def setCopied_def)

lemma step_CopyClick:
  "truthy (result (w_ui w)) \<Longrightarrow>
     step CopyClick w = w\<lparr>w_ui := (w_ui w)\<lparr>copied := True\<rparr>, w_timers := w_timers w @ [w_clock w + 2000]\<rparr>"
  by (auto simp: truthy_def copyToClipboard_eq schedule_def split: option.splits)

lemma step_Elapse_copied:
  "copied (w_ui (step (Elapse d) w)) =
     (copied (w_ui w) \<and> (\<forall>due\<in>set (w_timers w). w_clock w + d < due))"
  by (auto simp: fire_due_def fold_clear filter_empty_conv not_le)

lemma step_inv: "timers_inv w \<Longrightarrow> timers_inv (step e w)"
proof (cases e)
  case CopyClick
  assume "timers_inv w"
  then show ?thesis
    using CopyClick by (auto simp: timers_inv_def step_CopyClick simp del: step.simps)
next
  case (Elapse d)
  assume "timers_inv w"
  then show ?thesis
    using Elapse
    by (auto simp: timers_inv_def fire_due_def fold_clear fold_keeps_result filter_empty_conv
        ex_in_conv)
qed

lemma run_inv: "timers_inv w \<Longrightarrow> timers_inv (run evs w)"
  by (induction evs arbitrary: w) (auto simp: step_inv)

lemmas world_eval = step_CopyClick fire_due_def fold_clear copy_world_def with_result_def
  truthy_def scenario_text_def js_def ready_state_def timer_callback_def setCopied_def

section \<open>Image intake\<close>

text \<open>
  C6. For a file whose declared type does not start with \<open>image/\<close>, \<open>handleFile\<close> leaves
  the five cells as they are and asks nothing of the browser: no read is started, nothing
  is logged, nothing is shown.
\<close>

theorem handleFile_rejects_non_image:
  "\<not> startsWith (file_type f) (js ''image/'') \<Longrightarrow> handleFile f s = (s, [])"
  by (simp add: handleFile_def)

theorem handleFile_rejects_non_image_witness:
  "\<not> startsWith (file_type \<lparr>file_name = js ''notes.txt'', file_type = js ''text/plain''\<rparr>)
        (js ''image/'')
   \<and> handleFile \<lparr>file_name = js ''notes.txt'', file_type = js ''text/plain''\<rparr> idle_state
     = (idle_state, [])"
proof -
  have h: "\<not> startsWith (file_type \<lparr>file_name = js ''notes.txt'', file_type = js ''text/plain''\<rparr>)
        (js ''image/'')"
    by (simp add: startsWith_def js_def)
  show ?thesis
    using h handleFile_rejects_non_image [OF h] by simp
qed

text \<open>
  C7. For a file whose declared type starts with \<open>image/\<close>, \<open>handleFile\<close> starts the read
  of that file, and when the read completes with the data URI \<open>uri\<close> the stored media type
  is the file's declared type, the stored image is \<open>uri\<close> and the result is cleared; the
  other two cells keep their values.
\<close>

theorem handleFile_accepts_image:
  "startsWith (file_type f) (js ''image/'') \<Longrightarrow>
     handleFile f s = (s, [ReadAsDataURL f])
   \<and> mimeType (reader_onload f (Some uri) s') = file_type f
   \<and> image_uri (reader_onload f (Some uri) s') = Some uri
   \<and> result (reader_onload f (Some uri) s') = None
   \<and> analyzing (reader_onload f (Some uri) s') = analyzing s'
   \<and> copied (reader_onload f (Some uri) s') = copied s'"
  by (simp add: handleFile_def reader_onload_def)

theorem handleFile_accepts_image_witness:
  "startsWith (file_type \<lparr>file_name = js ''photo.png'', file_type = js ''image/png''\<rparr>)
        (js ''image/'')
   \<and> result (reader_onload \<lparr>file_name = js ''photo.png'', file_type = js ''image/png''\<rparr>
         (Some png_uri) (with_result scenario_text)) = None"
proof -
  have h: "startsWith (file_type \<lparr>file_name = js ''photo.png'', file_type = js ''image/png''\<rparr>)
        (js ''image/'')"
    by (simp add: startsWith_def js_def)
  show ?thesis
    using h handleFile_accepts_image [OF h] by simp
qed

section \<open>Requesting an analysis\<close>

text \<open>
  C1. An analysis is requested by a click on the button whose \<open>onClick\<close> is
  \<open>handleAnalyze\<close>, the only place that calls it. In every state with no image loaded or
  with an analysis in flight the button is disabled, and the request leaves the five
  cells as they are and calls nothing; with no image loaded \<open>handleAnalyze\<close> itself does
  the same. In every other state the request runs \<open>handleAnalyze\<close>, which calls the
  client.
\<close>

theorem requestAnalysis_noop:
  "(\<not> truthy (image_uri s) \<or> analyzing s \<longrightarrow>
      analyze_button_click client during s = (Inr (), s, []))
   \<and> (\<not> truthy (image_uri s) \<longrightarrow> handleAnalyze client during s = (Inr (), s, []))
   \<and> (image_uri s = Some img \<and> img \<noteq> [] \<and> \<not> analyzing s \<longrightarrow>
        analyze_button_click client during s = handleAnalyze client during s
        \<and> (\<exists>es. snd (snd (handleAnalyze client during s)) = AnalyzeImage img (mimeType s) # es))"
  by (auto simp: handleAnalyze_def analyze_button_click_def analyze_button_disabled_def
      truthy_def action_defs split: option.splits sum.splits)

theorem requestAnalysis_noop_witness:
  "analyze_button_click (stub_client (Some (js ''a cat''))) id idle_state = (Inr (), idle_state, [])
   \<and> analyze_button_click (stub_client (Some (js ''a cat''))) id busy_state
        = (Inr (), busy_state, [])
   \<and> handleAnalyze (stub_client (Some (js ''a cat''))) id idle_state = (Inr (), idle_state, [])"
proof -
  have h1: "\<not> truthy (image_uri idle_state)"
    by (simp add: idle_state_def truthy_def)
  have h2: "analyzing busy_state"
    by (simp add: busy_state_def)
  show ?thesis
    using h1 h2
      requestAnalysis_noop [of idle_state "stub_client (Some (js ''a cat''))" id]
      requestAnalysis_noop [of busy_state "stub_client (Some (js ''a cat''))" id]
    by blast
qed

text \<open>
  C2, as stated, fails for the empty text: when the client returns the empty string,
  \<open>handleAnalyze\<close> stores the fixed message of \<open>promptResult || ...\<close>, not the returned
  text.
\<close>

theorem handleAnalyze_empty_text_counterexample:
  "handleAnalyze (stub_client (Some [])) id ready_state
     = (Inr (), ready_state\<lparr>result := Some no_prompt_message\<rparr>,
        [AnalyzeImage png_uri (js ''image/png'')])
   \<and> Some no_prompt_message \<noteq> Some []"
  by (simp add: ready_state_def handleAnalyze_def action_defs stub_client_def js_or_def
      no_prompt_message_def js_def png_uri_def)

text \<open>
  C2, amended. When the client returns a text \<open>t\<close>, \<open>handleAnalyze\<close> ends normally, with
  \<open>analyzing\<close> false and with the result equal to \<open>t\<close> exactly if \<open>t\<close> is not empty, and
  equal to the fixed message \<open>no_prompt_message\<close> if \<open>t\<close> is empty. The other cells are as
  the handlers that ran during the call left them.
\<close>

theorem handleAnalyze_success:
  "image_uri s = Some img \<Longrightarrow> img \<noteq> [] \<Longrightarrow> client img (mimeType s) = Inr (Some t) \<Longrightarrow>
     handleAnalyze client during s =
       (Inr (),
        (during (s\<lparr>analyzing := True\<rparr>))
          \<lparr>result := Some (if t = [] then no_prompt_message else t), analyzing := False\<rparr>,
        [AnalyzeImage img (mimeType s)])"
  by (simp add: handleAnalyze_def action_defs js_or_def)

theorem handleAnalyze_success_witness:
  "image_uri ready_state = Some png_uri \<and> png_uri \<noteq> []
   \<and> stub_client (Some scenario_text) png_uri (mimeType ready_state) = Inr (Some scenario_text)
   \<and> handleAnalyze (stub_client (Some scenario_text)) id ready_state =
       (Inr (),
        (id (ready_state\<lparr>analyzing := True\<rparr>))
          \<lparr>result := Some (if scenario_text = [] then no_prompt_message else scenario_text),
           analyzing := False\<rparr>,
        [AnalyzeImage png_uri (mimeType ready_state)])"
proof -
  have h1: "image_uri ready_state = Some png_uri"
    by (simp add: ready_state_def)
  have h2: "png_uri \<noteq> []"
    by (simp add: png_uri_def js_def)
  have h3: "stub_client (Some scenario_text) png_uri (mimeType ready_state) = Inr (Some scenario_text)"
    by (simp add: stub_client_def)
  show ?thesis
    using h1 h2 h3
      handleAnalyze_success [of ready_state png_uri "stub_client (Some scenario_text)"
        scenario_text id, OF h1 h2 h3]
    by blast
qed

text \<open>
  C5. When the client call fails with an error \<open>e\<close>, \<open>handleAnalyze\<close> ends normally (the
  error does not leave it), with the result equal to the fixed message \<open>error_message\<close>,
  which is not empty, and with \<open>analyzing\<close> false; the error is logged.
\<close>

theorem handleAnalyze_failure:
  "image_uri s = Some img \<Longrightarrow> img \<noteq> [] \<Longrightarrow> client img (mimeType s) = Inl e \<Longrightarrow>
     handleAnalyze client during s =
       (Inr (),
        (during (s\<lparr>analyzing := True\<rparr>))\<lparr>result := Some error_message, analyzing := False\<rparr>,
        [AnalyzeImage img (mimeType s), ConsoleError e])
     \<and> error_message \<noteq> []"
  by (simp add: handleAnalyze_def action_defs error_message_def js_def)

theorem handleAnalyze_failure_witness:
  "image_uri ready_state = Some png_uri \<and> png_uri \<noteq> []
   \<and> failing_client (JsError (js ''fetch failed'')) png_uri (mimeType ready_state)
        = Inl (JsError (js ''fetch failed''))
   \<and> handleAnalyze (failing_client (JsError (js ''fetch failed''))) id ready_state =
       (Inr (),
        (id (ready_state\<lparr>analyzing := True\<rparr>))\<lparr>result := Some error_message, analyzing := False\<rparr>,
        [AnalyzeImage png_uri (mimeType ready_state), ConsoleError (JsError (js ''fetch failed''))])"
proof -
  have h1: "image_uri ready_state = Some png_uri"
    by (simp add: ready_state_def)
  have h2: "png_uri \<noteq> []"
    by (simp add: png_uri_def js_def)
  have h3: "failing_client (JsError (js ''fetch failed'')) png_uri (mimeType ready_state)
        = Inl (JsError (js ''fetch failed''))"
    by (simp add: failing_client_def)
  show ?thesis
    using h1 h2 h3
      handleAnalyze_failure [of ready_state png_uri "failing_client (JsError (js ''fetch failed''))"
        "JsError (js ''fetch failed'')" id, OF h1 h2 h3]
    by blast
qed

section \<open>The Analysis Client\<close>

text \<open>
  C3, as stated, fails: for a response without text \<open>analyzeImage\<close> returns \<open>undefined\<close>
  to its caller; it does not throw.
\<close>

theorem analyzeImage_missing_text_counterexample:
  "analyzeImage (stub_service \<lparr>resp_text = None\<rparr>) png_uri (js ''image/png'') = Inr None"
  by (simp add: analyzeImage_def stub_service_def)

text \<open>
  C3, amended. For a response whose text is empty or missing, \<open>analyzeImage\<close> signals no
  failure: it returns that empty or missing text. Its caller \<open>handleAnalyze\<close> then stores
  the fixed message \<open>no_prompt_message\<close> as the result and ends with \<open>analyzing\<close> false.
\<close>

theorem analyzeImage_empty_text:
  "generateContent (analyzeImage_request img (mimeType s)) = Inr response \<Longrightarrow>
   \<not> truthy (resp_text response) \<Longrightarrow> image_uri s = Some img \<Longrightarrow> img \<noteq> [] \<Longrightarrow>
     analyzeImage generateContent img (mimeType s) = Inr (resp_text response)
   \<and> handleAnalyze (analyzeImage generateContent) during s =
       (Inr (),
        (during (s\<lparr>analyzing := True\<rparr>))\<lparr>result := Some no_prompt_message, analyzing := False\<rparr>,
        [AnalyzeImage img (mimeType s)])"
  by (auto simp: analyzeImage_def handleAnalyze_def action_defs js_or_def truthy_def
      split: option.splits)

theorem analyzeImage_empty_text_witness:
  "stub_service \<lparr>resp_text = Some []\<rparr> (analyzeImage_request png_uri (mimeType ready_state))
     = Inr \<lparr>resp_text = Some []\<rparr>
   \<and> \<not> truthy (resp_text \<lparr>resp_text = Some []\<rparr>)
   \<and> image_uri ready_state = Some png_uri \<and> png_uri \<noteq> []
   \<and> analyzeImage (stub_service \<lparr>resp_text = Some []\<rparr>) png_uri (mimeType ready_state)
       = Inr (resp_text \<lparr>resp_text = Some []\<rparr>)"
proof -
  have h1: "stub_service \<lparr>resp_text = Some []\<rparr> (analyzeImage_request png_uri (mimeType ready_state))
     = Inr \<lparr>resp_text = Some []\<rparr>"
    by (simp add: stub_service_def)
  have h2: "\<not> truthy (resp_text \<lparr>resp_text = Some []\<rparr>)"
    by (simp add: truthy_def)
  have h3: "image_uri ready_state = Some png_uri"
    by (simp add: ready_state_def)
  have h4: "png_uri \<noteq> []"
    by (simp add: png_uri_def js_def)
  show ?thesis
    using h1 h2 h3 h4
      analyzeImage_empty_text [of "stub_service \<lparr>resp_text = Some []\<rparr>" png_uri ready_state
        "\<lparr>resp_text = Some []\<rparr>" id, OF h1 h2 h3 h4]
    by blast
qed

text \<open>
  C9, as stated, fails for an input with two commas: the data sent for \<open>a,b,c\<close> is \<open>b\<close>,
  not the substring \<open>b,c\<close> after the first comma.
\<close>

theorem analyzeImage_two_commas_counterexample:
  "inl_data (req_inlineData (analyzeImage_request (js ''a,b,c'') (js ''image/png'')))
     = Some (js ''b'')
   \<and> after_first_comma (js ''a,b,c'') = js ''b,c''"
  by (simp add: analyzeImage_request_def at_index_def after_first_comma_def js_def comma_def)

text \<open>
  C9, amended. The inline image data of the request that \<open>analyzeImage\<close> sends is the part
  of \<open>base64Image\<close> between its first comma and its second comma, or the end when there is
  no second comma (so, for an input with exactly one comma, the substring after it); for
  an input with no comma the data is \<open>undefined\<close>, not the input.
\<close>

theorem analyzeImage_inline_data:
  "inl_data (req_inlineData (analyzeImage_request base64Image m)) =
     (if comma \<in> set base64Image
      then Some (takeWhile (\<lambda>c. c \<noteq> comma) (after_first_comma base64Image))
      else None)
   \<and> (comma \<in> set base64Image \<longrightarrow> comma \<notin> set (after_first_comma base64Image) \<longrightarrow>
        inl_data (req_inlineData (analyzeImage_request base64Image m))
          = Some (after_first_comma base64Image))"
  by (auto simp: analyzeImage_request_def after_first_comma_def split_index_1)

theorem analyzeImage_inline_data_witness:
  "comma \<in> set png_uri \<and> comma \<notin> set (after_first_comma png_uri)
   \<and> inl_data (req_inlineData (analyzeImage_request png_uri (js ''image/png'')))
        = Some (after_first_comma png_uri)
   \<and> after_first_comma png_uri = js ''AAAA''"
proof -
  have h1: "comma \<in> set png_uri"
    by (simp add: png_uri_def js_def comma_def)
  have h2: "after_first_comma png_uri = js ''AAAA''"
    by (simp add: after_first_comma_def png_uri_def js_def comma_def)
  have h3: "comma \<notin> set (after_first_comma png_uri)"
    unfolding h2 by (simp add: js_def comma_def)
  show ?thesis
    using h1 h2 h3 analyzeImage_inline_data [of png_uri "js ''image/png''"] by blast
qed

section \<open>Copying the result\<close>




text \<open>
  C10. The result \<open>three_blocks_text\<close> is a block tagged \<open>json\<close> followed by two blocks
  that match the pattern, tagged \<open>prompt\<close> (inner content \<open>x\<close>) and \<open>text\<close> (inner
  content \<open>y\<close>). The clipboard receives neither \<open>x\<close> nor \<open>y\<close>: the pattern matches at the
  closing fence of the \<open>json\<close> block, and the text written is the opening line of the
  \<open>prompt\<close> block followed by \<open>x\<close>.
\<close>

theorem copyToClipboard_closing_fence_match:
  "copyToClipboard (with_result three_blocks_text)
     = (Inr (), (with_result three_blocks_text)\<lparr>copied := True\<rparr>,
        [ClipboardWriteText (fence @ js ''prompt'' @ [nl] @ js ''x''), SetTimeout 2000])
   \<and> fence @ js ''prompt'' @ [nl] @ js ''x'' \<noteq> js ''x''"
proof -
  have "textToCopy three_blocks_text = Some (fence @ js ''prompt'' @ [nl] @ js ''x'')"
    by (simp add: textToCopy_def string_match_def code_block_regex_def three_blocks_text_def
        js_def nl_def bt_def fence_def closing_def)
  moreover have "result (with_result three_blocks_text) = Some three_blocks_text"
    "three_blocks_text \<noteq> []"
    by (simp_all add: with_result_def three_blocks_text_def fence_def)
  moreover have "fence @ js ''prompt'' @ [nl] @ js ''x'' \<noteq> js ''x''"
    by (simp add: js_def fence_def)
  ultimately show ?thesis
    using copyToClipboard_eq [of "with_result three_blocks_text" three_blocks_text]
    by (simp add: js_String_def)
qed

text \<open>
  C8, as stated, fails: timers are never cancelled, so what the indicator shows after a
  click depends on the clicks before it. 500 ms after a single click the indicator is
  on; 500 ms after a click that follows another one by 1500 ms it is off, cleared by the
  timer of the earlier click.
\<close>

theorem copied_cleared_early_counterexample:
  "copied (w_ui (run [CopyClick, Elapse 500] copy_world))
   \<and> \<not> copied (w_ui (run [CopyClick, Elapse 1500, CopyClick, Elapse 500] copy_world))"
  by (simp add: world_eval del: step.simps(1))

text \<open>
  C8, amended. Let the component start with a result present, the indicator off and no
  timer pending, and let any sequence of clicks on the copy button and of waits lead to
  the world \<open>w\<close>. A further click sets the indicator at once and adds a timer due exactly
  2000 ms later, cancelling none. After a wait of \<open>d\<close> ms the indicator is on exactly if
  it was on before and no pending timer fell due during the wait; so after a click and a
  wait of \<open>d\<close> ms it is on exactly if \<open>d < 2000\<close> and no timer of an earlier click fell
  due. 2000 ms or more after a click no timer is pending; every pending timer is due
  within the next 2000 ms; and whenever no timer is pending the indicator is off.
\<close>

theorem copied_indicator:
  assumes "truthy (result (w_ui w0))" "\<not> copied (w_ui w0)" "w_timers w0 = []"
    and w: "w = run evs w0"
  shows "step CopyClick w =
           w\<lparr>w_ui := (w_ui w)\<lparr>copied := True\<rparr>, w_timers := w_timers w @ [w_clock w + 2000]\<rparr>
    \<and> (\<forall>d. copied (w_ui (step (Elapse d) (step CopyClick w))) =
            (d < 2000 \<and> (\<forall>due\<in>set (w_timers w). w_clock w + d < due)))
    \<and> (\<forall>d. copied (w_ui (step (Elapse d) w)) =
            (copied (w_ui w) \<and> (\<forall>due\<in>set (w_timers w). w_clock w + d < due)))
    \<and> (\<forall>d\<ge>2000. w_timers (step (Elapse d) (step CopyClick w)) = [])
    \<and> (\<forall>due\<in>set (w_timers w). w_clock w < due \<and> due \<le> w_clock w + 2000)
    \<and> (w_timers w = [] \<longrightarrow> \<not> copied (w_ui w))"
proof -
  have "timers_inv w0"
    using assms by (simp add: timers_inv_def)
  then have inv: "timers_inv w"
    unfolding w by (rule run_inv)
  then have t: "truthy (result (w_ui w))"
    by (simp add: timers_inv_def)
  have a: "step CopyClick w =
           w\<lparr>w_ui := (w_ui w)\<lparr>copied := True\<rparr>, w_timers := w_timers w @ [w_clock w + 2000]\<rparr>"
    by (rule step_CopyClick [OF t])
  have b: "\<forall>d. copied (w_ui (step (Elapse d) (step CopyClick w))) =
            (d < 2000 \<and> (\<forall>due\<in>set (w_timers w). w_clock w + d < due))"
    unfolding a step_Elapse_copied by auto
  have c: "\<forall>d. copied (w_ui (step (Elapse d) w)) =
            (copied (w_ui w) \<and> (\<forall>due\<in>set (w_timers w). w_clock w + d < due))"
    by (simp add: step_Elapse_copied del: step.simps)
  have d: "\<forall>d\<ge>2000. w_timers (step (Elapse d) (step CopyClick w)) = []"
    unfolding a using inv by (auto simp: fire_due_def timers_inv_def filter_empty_conv)
  have e: "\<forall>due\<in>set (w_timers w). w_clock w < due \<and> due \<le> w_clock w + 2000"
    using inv by (simp add: timers_inv_def)
  have f: "w_timers w = [] \<longrightarrow> \<not> copied (w_ui w)"
    using inv by (auto simp: timers_inv_def)
  show ?thesis
    using a b c d e f by blast
qed

theorem copied_indicator_witness:
  "copied (w_ui (step (Elapse 499) (step CopyClick (run [CopyClick, Elapse 1500] copy_world))))
   \<and> \<not> copied (w_ui (step (Elapse 500) (step CopyClick (run [CopyClick, Elapse 1500] copy_world))))"
proof -
  have h1: "truthy (result (w_ui copy_world))"
    by (simp add: copy_world_def with_result_def truthy_def scenario_text_def js_def)
  have h2: "\<not> copied (w_ui copy_world)"
    by (simp add: copy_world_def with_result_def ready_state_def)
  have h3: "w_timers copy_world = []"
    by (simp add: copy_world_def)
  have t: "w_timers (run [CopyClick, Elapse 1500] copy_world) = [2000]"
    and c: "w_clock (run [CopyClick, Elapse 1500] copy_world) = 1500"
    by (simp_all add: world_eval timer_callback_def setCopied_def del: step.simps(1))
  note b = copied_indicator [OF h1 h2 h3 refl, of "[CopyClick, Elapse 1500]",
      THEN conjunct2, THEN conjunct1, unfolded t c]
  have "copied (w_ui (step (Elapse 499) (step CopyClick (run [CopyClick, Elapse 1500] copy_world))))"
    unfolding b [THEN spec, of 499] by simp
  moreover
  have "\<not> copied (w_ui (step (Elapse 500) (step CopyClick (run [CopyClick, Elapse 1500] copy_world))))"
    unfolding b [THEN spec, of 500] by simp
  ultimately show ?thesis
    by blast
qed

end
